theory Spec2Isabelle
  imports Complex_Main "HOL-Library.Log_Nat"
begin

section \<open>Data model of \<open>bsl_track_server/bsl.py\<close>\<close>

text \<open>
  \<open>decimal.Decimal\<close>: a finite decimal is identified with the rational number it
  denotes (comparison, remainder and the count of decimal places after
  \<open>normalize()\<close> depend on that number only); the special values are kept apart.
\<close>

datatype Decimal = Finite rat | Infinity | NegInfinity | NaN

text \<open>\<open>class MeasurementTypes(Enum)\<close>: FASTING = "fasting", RANDOM = "random".\<close>

datatype MeasurementTypes = FASTING | RANDOM

fun MeasurementTypes_value :: "MeasurementTypes \<Rightarrow> string" where
  "MeasurementTypes_value FASTING = ''fasting''"
| "MeasurementTypes_value RANDOM = ''random''"

fun MeasurementTypes_name :: "MeasurementTypes \<Rightarrow> string" where
  "MeasurementTypes_name FASTING = ''FASTING''"
| "MeasurementTypes_name RANDOM = ''RANDOM''"

datatype py_date = Date (year: nat) (month: nat) (day: nat)

datatype py_time = Time (hour: nat) (minute: nat) (second: nat)

text \<open>
  \<open>class BslMeasurementSchema(BaseModel)\<close>. The fields carry the suffix \<open>_s\<close>;
  \<open>id: int | None\<close> is an option, \<open>date\<close> and \<open>time\<close> are plain (not optional).
  The \<open>Decimal\<close> of an instance is finite (validation refuses the others): it is
  the rational number itself.
\<close>

record BslMeasurementSchema =
  id_s :: "int option"
  bsl_s :: rat
  type_s :: MeasurementTypes
  date_s :: py_date
  time_s :: py_time

text \<open>
  \<open>class BslMeasurementModel(OrmBase)\<close>, a row of table \<open>bsls\<close>, with the
  values the store returns for it. The attribute \<open>id\<close> of an instance is \<open>None\<close>
  until the row has been inserted.
\<close>

record BslMeasurementModel =
  id_m :: "int option"
  bsl_m :: Decimal
  type_m :: MeasurementTypes
  date_m :: py_date
  time_m :: py_time

section \<open>Validation layer\<close>

text \<open>
  The body of a request before validation: each field of the schema is present or
  absent (\<open>None\<close>; for \<open>id\<close> also JSON \<open>null\<close>). A present field has the
  lexical sort of its annotation (a number, a string, a date, a time).
\<close>

record candidate =
  c_id :: "int option"
  c_bsl :: "Decimal option"
  c_type :: "string option"
  c_date :: "py_date option"
  c_time :: "py_time option"

text \<open>Enum lookup by value, as \<open>MeasurementTypes(s)\<close> does: by the member's value, not its name.\<close>

definition MeasurementTypes_of :: "string \<Rightarrow> MeasurementTypes option" where
  "MeasurementTypes_of s =
     (if s = MeasurementTypes_value FASTING then Some FASTING
      else if s = MeasurementTypes_value RANDOM then Some RANDOM
      else None)"

text \<open>
  The validation of each field: the name of the error, or the validated value.

  Field \<open>bsl\<close> (line 39) is annotated \<open>Annotated[Decimal, condecimal(...)]\<close>: the
  type of the field is \<open>Decimal\<close>, and what \<open>condecimal(...)\<close> returns stands
  among the metadata of \<open>Annotated\<close>, where it is no constraint and is passed over.
  So none of \<open>ge\<close>, \<open>le\<close>, \<open>multiple_of\<close> and \<open>decimal_places\<close> is applied:
  the field is required, and a \<open>Decimal\<close> field refuses the values that are not finite.
\<close>

definition field_bsl :: "Decimal option \<Rightarrow> string + rat" where
  "field_bsl v =
     (case v of
        None \<Rightarrow> Inl ''missing''
      | Some (Finite q) \<Rightarrow> Inr q
      | Some _ \<Rightarrow> Inl ''finite_number'')"

definition field_type :: "string option \<Rightarrow> string + MeasurementTypes" where
  "field_type v =
     (case v of
        None \<Rightarrow> Inr FASTING
      | Some s \<Rightarrow> (case MeasurementTypes_of s of None \<Rightarrow> Inl ''enum'' | Some t \<Rightarrow> Inr t))"

definition field_required :: "'a option \<Rightarrow> string + 'a" where
  "field_required v = (case v of None \<Rightarrow> Inl ''missing'' | Some x \<Rightarrow> Inr x)"

definition field_errors :: "string \<Rightarrow> string + 'a \<Rightarrow> (string \<times> string) list" where
  "field_errors name r = (case r of Inl e \<Rightarrow> [(name, e)] | Inr _ \<Rightarrow> [])"

datatype ValidationError = ValidationError "(string \<times> string) list"

text \<open>
  Validation of a request body against \<open>BslMeasurementSchema\<close>: every field is
  validated, and the errors of all fields (field name, error name) are reported together.
\<close>

definition validate :: "candidate \<Rightarrow> ValidationError + BslMeasurementSchema" where
  "validate c =
     (case (field_bsl (c_bsl c), field_type (c_type c),
            field_required (c_date c), field_required (c_time c)) of
        (Inr b, Inr t, Inr d, Inr tm) \<Rightarrow>
          Inr \<lparr>id_s = c_id c, bsl_s = b, type_s = t, date_s = d, time_s = tm\<rparr>
      | (rb, rt, rd, rtm) \<Rightarrow>
          Inl (ValidationError (field_errors ''bsl'' rb @ field_errors ''type'' rt
                 @ field_errors ''date'' rd @ field_errors ''time'' rtm)))"

section \<open>Persistence layer\<close>

text \<open>
  \<open>DatabaseError\<close> is raised with the keywords \<open>error\<close> and \<open>message\<close>; the
  keyword \<open>error\<close> is \<open>None\<close> where the call does not pass it.
  \<open>InvalidRequestError\<close> is what \<open>db.refresh\<close> raises for a row that is gone.
\<close>

datatype error =
  DatabaseError (error_tag: "string option") (message: string)
| InvalidRequestError

text \<open>The session: the rows of table \<open>bsls\<close>, in insertion order.\<close>

type_synonym Session = "BslMeasurementModel list"

text \<open>\<open>str\<close> of an integer, for the f-string in \<open>read\<close>.\<close>

fun str_nat :: "nat \<Rightarrow> string" where
  "str_nat n =
     (if n < 10 then [char_of (48 + n)]
      else str_nat (n div 10) @ [char_of (48 + n mod 10)])"

declare str_nat.simps [simp del]

definition str_int :: "int \<Rightarrow> string" where
  "str_int i = (if i < 0 then CHR ''-'' # str_nat (nat (- i)) else str_nat (nat i))"

text \<open>
  Column \<open>bsl\<close> is \<open>DECIMAL(scale=1)\<close>. The store keeps a \<open>Decimal\<close> as a
  binary float: a written value goes through \<open>float\<close> (the nearest binary64, ties
  to even, an infinity beyond the range), and a value that is read goes through
  \<open>Decimal("%.1f" % x)\<close>, the float rounded to the scale of the column (ties of the
  binary value to even).
\<close>

datatype py_float = Float rat | PosInf | NegInf

definition pow2 :: "int \<Rightarrow> rat" where
  "pow2 e = (if 0 \<le> e then 2 ^ nat e else 1 / 2 ^ nat (- e))"

definition round_half_even :: "rat \<Rightarrow> int" where
  "round_half_even x =
     (let f = \<lfloor>x\<rfloor>; d = x - of_int f
      in if d < 1 / 2 then f else if 1 / 2 < d then f + 1 else if even f then f else f + 1)"

text \<open>For \<open>q > 0\<close>, the \<open>k\<close> with \<open>2^k \<le> q < 2^(k+1)\<close>.\<close>

definition ilog2 :: "rat \<Rightarrow> int" where
  "ilog2 q =
     (let (a, b) = quotient_of q; k = bitlen a - bitlen b
      in if pow2 k \<le> q then k else k - 1)"

definition to_float :: "rat \<Rightarrow> py_float" where
  "to_float q =
     (if q = 0 then Float 0
      else
        let e = max (ilog2 \<bar>q\<bar> - 52) (- 1074);
            x = of_int (round_half_even (q / pow2 e)) * pow2 e
        in if 2 ^ 1024 \<le> x then PosInf
           else if x \<le> - (2 ^ 1024) then NegInf
           else Float x)"

definition to_decimal :: "nat \<Rightarrow> py_float \<Rightarrow> Decimal" where
  "to_decimal scale v =
     (case v of
        Float x \<Rightarrow> Finite (of_int (round_half_even (x * 10 ^ scale)) / 10 ^ scale)
      | PosInf \<Rightarrow> Infinity
      | NegInf \<Rightarrow> NegInfinity)"

text \<open>What the store returns from column \<open>bsl\<close> after \<open>q\<close> was written to it.\<close>

definition bsl_column :: "rat \<Rightarrow> Decimal" where
  "bsl_column q = to_decimal 1 (to_float q)"

text \<open>\<open>db.scalar(select(cls).where(cls.id == i))\<close>: the first row with that id, if any.\<close>

definition select_by_id :: "Session \<Rightarrow> int \<Rightarrow> BslMeasurementModel option" where
  "select_by_id db i = find (\<lambda>r. id_m r = Some i) db"

text \<open>
  The id the store gives to an inserted row (\<open>autoincrement=True\<close>): one more
  than the largest id in the table, 1 in an empty table.
\<close>

definition next_id :: "Session \<Rightarrow> int" where
  "next_id db = fold max (List.map_filter id_m db) 0 + 1"

definition list_bsl :: "Session \<Rightarrow> BslMeasurementModel list" where
  "list_bsl db = db"

definition read :: "Session \<Rightarrow> int \<Rightarrow> error + BslMeasurementModel" where
  "read db measurement_id =
     (case select_by_id db measurement_id of
        None \<Rightarrow> Inl (DatabaseError (Some ''MeasurementNotFound'')
                      (''No measurement with the given id: '' @ str_int measurement_id))
      | Some r \<Rightarrow> Inr r)"

text \<open>
  \<open>create\<close>: the row is built from \<open>measurement.model_dump()\<close>, added and
  committed (the store assigns the id and keeps the value in column \<open>bsl\<close>), then
  refreshed, that is read again by its id.
\<close>

definition create :: "Session \<Rightarrow> BslMeasurementSchema \<Rightarrow> error + (BslMeasurementModel \<times> Session)" where
  "create db measurement =
     (if id_s measurement \<noteq> None
      then Inl (DatabaseError None ''ID should be null for new measurements'')
      else
        let row = \<lparr>id_m = id_s measurement, bsl_m = Finite (bsl_s measurement),
                   type_m = type_s measurement, date_m = date_s measurement,
                   time_m = time_s measurement\<rparr>;
            new_id = next_id db;
            db' = db @ [row\<lparr>id_m := Some new_id, bsl_m := bsl_column (bsl_s measurement)\<rparr>]
        in (case select_by_id db' new_id of
              Some r \<Rightarrow> Inr (r, db')
            | None \<Rightarrow> Inl InvalidRequestError))"

text \<open>
  The commit of \<open>update\<close>: the row that was selected (the first with the id) is
  overwritten; the row returned is expired by the commit and read again when used.
\<close>

fun overwrite :: "int \<Rightarrow> BslMeasurementModel \<Rightarrow> Session \<Rightarrow> Session" where
  "overwrite i new [] = []"
| "overwrite i new (r # rs) =
     (if id_m r = Some i then new # rs else r # overwrite i new rs)"

definition update :: "Session \<Rightarrow> BslMeasurementSchema \<Rightarrow> error + (BslMeasurementModel \<times> Session)" where
  "update db measurement =
     (case id_s measurement of
        None \<Rightarrow> Inl (DatabaseError None ''ID should not be null for existing measurements'')
      | Some i \<Rightarrow>
          (case select_by_id db i of
             None \<Rightarrow> Inl (DatabaseError None ''Measurement not found'')
           | Some r \<Rightarrow>
               let r' = r\<lparr>id_m := id_s measurement, bsl_m := bsl_column (bsl_s measurement),
                          type_m := type_s measurement, date_m := date_s measurement,
                          time_m := time_s measurement\<rparr>
               in Inr (r', overwrite i r' db)))"

definition delete :: "Session \<Rightarrow> int \<Rightarrow> Session" where
  "delete db measurement_id = filter (\<lambda>r. id_m r \<noteq> Some measurement_id) db"

section \<open>Routes\<close>

text \<open>
  What a route function does: it returns a value, raises \<open>HTTPException\<close> with a
  status code, or lets an error of the persistence layer propagate. A body that fails
  validation never reaches the route function (\<open>RequestValidationError\<close>).
\<close>

datatype 'a outcome =
  Returned 'a
| HTTPException nat string
| Unhandled error
| RequestValidationError ValidationError

definition list_measurements :: "Session \<Rightarrow> BslMeasurementModel list outcome \<times> Session" where
  "list_measurements db = (Returned (list_bsl db), db)"

definition get_measurement :: "int \<Rightarrow> Session \<Rightarrow> BslMeasurementModel outcome \<times> Session" where
  "get_measurement measurement_id db =
     (case read db measurement_id of
        Inl (DatabaseError t m) \<Rightarrow> (HTTPException 404 ''No measurement with that ID'', db)
      | Inl e \<Rightarrow> (Unhandled e, db)
      | Inr r \<Rightarrow> (Returned r, db))"

definition create_measurement :: "BslMeasurementSchema \<Rightarrow> Session \<Rightarrow> BslMeasurementModel outcome \<times> Session" where
  "create_measurement measurement db =
     (case create db measurement of
        Inl e \<Rightarrow> (Unhandled e, db)
      | Inr (r, db') \<Rightarrow> (Returned r, db'))"

definition update_measurement :: "BslMeasurementSchema \<Rightarrow> Session \<Rightarrow> BslMeasurementModel outcome \<times> Session" where
  "update_measurement measurement db =
     (case update db measurement of
        Inl (DatabaseError t m) \<Rightarrow> (HTTPException 404 ''No measurement with that ID'', db)
      | Inl e \<Rightarrow> (Unhandled e, db)
      | Inr (r, db') \<Rightarrow> (Returned r, db'))"

definition delete_measurement :: "int \<Rightarrow> Session \<Rightarrow> unit outcome \<times> Session" where
  "delete_measurement measurement_id db = (Returned (), delete db measurement_id)"

text \<open>A response that rejects the request as the client's fault: a status code 4xx.\<close>

fun client_rejection :: "'a outcome \<Rightarrow> bool" where
  "client_rejection (HTTPException code detail) = (400 \<le> code \<and> code < 500)"
| "client_rejection (RequestValidationError e) = True"
| "client_rejection (Returned x) = False"
| "client_rejection (Unhandled e) = False"

text \<open>The endpoints with a body: the body is validated, then the route function runs.\<close>

definition post_bsl :: "candidate \<Rightarrow> Session \<Rightarrow> BslMeasurementModel outcome \<times> Session" where
  "post_bsl c db =
     (case validate c of
        Inl e \<Rightarrow> (RequestValidationError e, db)
      | Inr measurement \<Rightarrow> create_measurement measurement db)"

definition put_bsl :: "candidate \<Rightarrow> Session \<Rightarrow> BslMeasurementModel outcome \<times> Session" where
  "put_bsl c db =
     (case validate c of
        Inl e \<Rightarrow> (RequestValidationError e, db)
      | Inr measurement \<Rightarrow> update_measurement measurement db)"

datatype request = GET_list | GET int | POST candidate | PUT candidate | DELETE int

fun handle :: "request \<Rightarrow> Session \<Rightarrow> Session" where
  "handle GET_list db = snd (list_measurements db)"
| "handle (GET i) db = snd (get_measurement i db)"
| "handle (POST c) db = snd (post_bsl c db)"
| "handle (PUT c) db = snd (put_bsl c db)"
| "handle (DELETE i) db = snd (delete_measurement i db)"

section \<open>The table \<open>bsls\<close>: ORM model and migration\<close>

datatype sql_type = Integer | DECIMAL nat | SaEnum "string list" | SqlDate | SqlTime

datatype sql_default = current_date | current_time

record column =
  col_name :: string
  col_type :: sql_type
  primary_key :: bool
  nullable :: bool
  server_default :: "sql_default option"

text \<open>
  The \<open>mapped_column\<close> attributes of \<open>BslMeasurementModel\<close> (bsl.py, lines 56 to
  60); \<open>SaEnum(MeasurementTypes)\<close> persists the names of the members.
\<close>

definition BslMeasurementModel_columns :: "column list" where
  "BslMeasurementModel_columns =
     [\<lparr>col_name = ''id'', col_type = Integer, primary_key = True, nullable = False,
        server_default = None\<rparr>,
      \<lparr>col_name = ''bsl'', col_type = DECIMAL 1, primary_key = False, nullable = False,
        server_default = None\<rparr>,
      \<lparr>col_name = ''type'',
        col_type = SaEnum [MeasurementTypes_name FASTING, MeasurementTypes_name RANDOM],
        primary_key = False, nullable = False, server_default = None\<rparr>,
      \<lparr>col_name = ''date'', col_type = SqlDate, primary_key = False, nullable = False,
        server_default = Some current_date\<rparr>,
      \<lparr>col_name = ''time'', col_type = SqlTime, primary_key = False, nullable = False,
        server_default = Some current_time\<rparr>]"

text \<open>
  The columns \<open>upgrade()\<close> creates (migration 02dbe609b6f5, lines 22 to 28); a
  column that is not a primary key is nullable unless declared otherwise.
\<close>

definition upgrade :: "column list" where
  "upgrade =
     [\<lparr>col_name = ''id'', col_type = Integer, primary_key = True, nullable = False,
        server_default = None\<rparr>,
      \<lparr>col_name = ''bsl'', col_type = DECIMAL 1, primary_key = False, nullable = True,
        server_default = None\<rparr>,
      \<lparr>col_name = ''date'', col_type = SqlDate, primary_key = False, nullable = True,
        server_default = Some current_date\<rparr>,
      \<lparr>col_name = ''time'', col_type = SqlTime, primary_key = False, nullable = True,
        server_default = Some current_time\<rparr>]"

section \<open>The constraint on a value\<close>

text \<open>
  The constraint the spec puts on a value: finite, in the inclusive range from 0 to
  100, with at most one decimal digit.
\<close>

definition is_integral :: "rat \<Rightarrow> bool" where
  "is_integral q = (of_int \<lfloor>q\<rfloor> = q)"

definition value_ok :: "Decimal \<Rightarrow> bool" where
  "value_ok d =
     (case d of Finite q \<Rightarrow> 0 \<le> q \<and> q \<le> 100 \<and> is_integral (q * 10) | _ \<Rightarrow> False)"

section \<open>Sample inputs\<close>

abbreviation body_0 :: candidate where
  "body_0 \<equiv> \<lparr>c_id = None, c_bsl = Some (Finite 0), c_type = Some ''fasting'',
      c_date = Some (Date 2024 9 3), c_time = Some (Time 18 4 58)\<rparr>"

abbreviation measurement_0 :: BslMeasurementSchema where
  "measurement_0 \<equiv> \<lparr>id_s = None, bsl_s = 0, type_s = FASTING,
      date_s = Date 2024 9 3, time_s = Time 18 4 58\<rparr>"

abbreviation row_1 :: BslMeasurementModel where
  "row_1 \<equiv> \<lparr>id_m = Some 1, bsl_m = Finite 0, type_m = FASTING,
      date_m = Date 2024 9 3, time_m = Time 18 4 58\<rparr>"

section \<open>Facts about validation\<close>

lemma validate_Inr:
  "validate c = Inr m \<Longrightarrow>
   c_bsl c = Some (Finite (bsl_s m)) \<and> id_s m = c_id c \<and>
   c_date c = Some (date_s m) \<and> c_time c = Some (time_s m)"
  by (auto simp: validate_def field_bsl_def field_required_def
      split: sum.splits option.splits Decimal.splits)

lemma validate_missing:
  "c_date c = None \<or> c_time c = None \<Longrightarrow>
   \<exists>errs. validate c = Inl (ValidationError errs) \<and>
     (c_date c = None \<longrightarrow> (''date'', ''missing'') \<in> set errs) \<and>
     (c_time c = None \<longrightarrow> (''time'', ''missing'') \<in> set errs)"
  by (auto simp: validate_def field_required_def field_errors_def
      split: sum.splits option.splits)

section \<open>Facts about column \<open>bsl\<close>\<close>

lemma pow2_powi: "pow2 e = 2 powi e"
  by (simp add: pow2_def power_int_def field_simps)

lemma pow2_pos: "0 < pow2 e"
  by (simp add: pow2_powi)

lemma rhe_err: "\<bar>of_int (round_half_even x) - x\<bar> \<le> 1 / 2"
proof -
  have "of_int \<lfloor>x\<rfloor> \<le> x" "x < of_int \<lfloor>x\<rfloor> + 1" by linarith+
  then show ?thesis
    by (auto simp: round_half_even_def Let_def abs_le_iff)
qed

lemma rhe_near: "\<bar>x - of_int n\<bar> < 1 / 2 \<Longrightarrow> round_half_even x = n"
proof -
  assume a: "\<bar>x - of_int n\<bar> < 1 / 2"
  show ?thesis
  proof (cases "of_int n \<le> x")
    case True
    with a have "\<lfloor>x\<rfloor> = n" by (intro floor_unique) auto
    with a True show ?thesis by (auto simp: round_half_even_def Let_def)
  next
    case False
    with a have f: "\<lfloor>x\<rfloor> = n - 1" by (intro floor_unique) auto
    with a False show ?thesis by (auto simp: round_half_even_def Let_def)
  qed
qed

lemma ilog2_bounds:
  assumes "0 < q"
  shows "pow2 (ilog2 q) \<le> q \<and> q < pow2 (ilog2 q + 1)"
proof -
  obtain a b where ab: "quotient_of q = (a, b)" by (cases "quotient_of q")
  then have b: "0 < b" and q: "q = of_int a / of_int b"
    using quotient_of_denom_pos quotient_of_div by auto
  with assms have a: "0 < a" by (simp add: zero_less_divide_iff)
  let ?k = "bitlen a - bitlen b"
  have ba: "1 \<le> bitlen a" "1 \<le> bitlen b"
    using a b by (auto simp: bitlen_alt_def)
  from bitlen_bounds [OF a] have a1: "(of_int a :: rat) < 2 ^ nat (bitlen a)"
    and a0: "(2 :: rat) ^ nat (bitlen a - 1) \<le> of_int a"
    by (metis of_int_less_iff of_int_numeral of_int_power, metis of_int_le_iff of_int_numeral of_int_power)
  from bitlen_bounds [OF b] have b1: "(of_int b :: rat) < 2 ^ nat (bitlen b)"
    and b0: "(2 :: rat) ^ nat (bitlen b - 1) \<le> of_int b"
    by (metis of_int_less_iff of_int_numeral of_int_power, metis of_int_le_iff of_int_numeral of_int_power)
  have A1: "(of_int a :: rat) < 2 powi (bitlen a)" using a1 ba by (simp add: power_int_def)
  have B0: "(2 :: rat) powi (bitlen b - 1) \<le> of_int b" using b0 ba by (simp add: power_int_def)
  have "q < 2 powi (bitlen a) / 2 powi (bitlen b - 1)"
    unfolding q using A1 B0 a b
    by (intro frac_less) auto
  also have "\<dots> = 2 powi (?k + 1)"
    by (simp add: power_int_diff power_int_add)
  finally have up: "q < pow2 (?k + 1)" by (simp add: pow2_powi)
  have A0: "(2 :: rat) powi (bitlen a - 1) \<le> of_int a" using a0 ba by (simp add: power_int_def)
  have B1: "(of_int b :: rat) < 2 powi (bitlen b)" using b1 ba by (simp add: power_int_def)
  have "2 powi (bitlen a - 1) / 2 powi (bitlen b) < q"
    unfolding q using A0 B1 a b
    by (intro frac_less2) auto
  moreover have "2 powi (bitlen a - 1) / 2 powi (bitlen b) = (2::rat) powi (?k - 1)"
    by (simp add: power_int_diff)
  ultimately have lo: "pow2 (?k - 1) < q" by (simp add: pow2_powi)
  show ?thesis
  proof (cases "pow2 ?k \<le> q")
    case True
    then show ?thesis using up ab by (simp add: ilog2_def)
  next
    case False
    then show ?thesis using lo ab by (simp add: ilog2_def)
  qed
qed


lemma to_float_error:
  assumes q: "0 < q" and r: "pow2 (- 1022) \<le> q" and h: "q \<le> 2 ^ 1000"
  shows "\<exists>x. to_float q = Float x \<and> \<bar>x - q\<bar> \<le> q / 2 ^ 53"
proof -
  let ?k = "ilog2 q"
  from ilog2_bounds [OF q] have lo: "pow2 ?k \<le> q" and up: "q < pow2 (?k + 1)" by simp_all
  have k: "- 1022 \<le> ?k"
  proof (rule ccontr)
    assume "\<not> - 1022 \<le> ?k"
    then have "?k + 1 \<le> - 1022" by simp
    then have "pow2 (?k + 1) \<le> pow2 (- 1022)"
      unfolding pow2_powi by (intro power_int_increasing) auto
    with up r show False by simp
  qed
  then have e: "max (?k - 52) (- 1074) = ?k - 52" by simp
  let ?e = "?k - 52"
  let ?m = "round_half_even (q / pow2 ?e)"
  let ?x = "of_int ?m * pow2 ?e"
  have pe: "0 < pow2 ?e" by (rule pow2_pos)
  have "\<bar>of_int ?m - q / pow2 ?e\<bar> \<le> 1 / 2" by (rule rhe_err)
  then have "\<bar>of_int ?m - q / pow2 ?e\<bar> * pow2 ?e \<le> 1 / 2 * pow2 ?e"
    using pe by (intro mult_right_mono) auto
  moreover have "\<bar>of_int ?m - q / pow2 ?e\<bar> * pow2 ?e = \<bar>?x - q\<bar>"
  proof -
    have "\<bar>of_int ?m - q / pow2 ?e\<bar> * pow2 ?e = \<bar>(of_int ?m - q / pow2 ?e) * pow2 ?e\<bar>"
      using pe by (intro abs_mult_pos) simp
    also have "(of_int ?m - q / pow2 ?e) * pow2 ?e = ?x - q"
      using pe by (simp add: left_diff_distrib)
    finally show ?thesis .
  qed
  moreover have "1 / 2 * pow2 ?e = pow2 ?k / 2 ^ 53"
    unfolding pow2_powi by (simp add: power_int_diff)
  ultimately have err: "\<bar>?x - q\<bar> \<le> pow2 ?k / 2 ^ 53" by simp
  also have "\<dots> \<le> q / 2 ^ 53" using lo by (simp add: divide_right_mono)
  finally have err': "\<bar>?x - q\<bar> \<le> q / 2 ^ 53" .
  have "q / 2 ^ 53 \<le> q / 1" using q by (intro divide_left_mono) auto
  with err' have eq: "\<bar>?x - q\<bar> \<le> q" by simp
  then have "?x \<le> 2 * q" by linarith
  also have "\<dots> \<le> 2 * 2 ^ 1000" using h by simp
  also have "\<dots> < (2::rat) ^ 1024" by simp
  finally have xs: "?x < 2 ^ 1024" .
  have "- (2 ^ 1024) < (0::rat)" by simp
  also have "0 \<le> ?x" using eq by linarith
  finally have xl: "- (2 ^ 1024) < ?x" .
  have "to_float q = Float ?x"
    using q xs xl by (simp add: to_float_def Let_def abs_of_pos e not_le)
  with err' show ?thesis by blast
qed

lemma bsl_column_one_decimal:
  assumes "0 \<le> n" and "n \<le> 1000"
  shows "bsl_column (of_int n / 10) = Finite (of_int n / 10)"
proof (cases "n = 0")
  case True
  then show ?thesis
    by (simp add: bsl_column_def to_float_def to_decimal_def round_half_even_def)
next
  case False
  with assms have n: "1 \<le> n" by simp
  let ?q = "of_int n / 10 :: rat"
  have q: "0 < ?q" using n by simp
  have "pow2 (- 1022) \<le> 1 / 10"
    unfolding pow2_powi by (simp add: power_int_def field_simps)
  also have "\<dots> \<le> ?q" using n by simp
  finally have r: "pow2 (- 1022) \<le> ?q" .
  have "?q \<le> 100" using assms by simp
  also have "\<dots> \<le> (2::rat) ^ 1000" by simp
  finally have h: "?q \<le> 2 ^ 1000" .
  from to_float_error [OF q r h] obtain x where
    x: "to_float ?q = Float x" and err: "\<bar>x - ?q\<bar> \<le> ?q / 2 ^ 53" by blast
  have "\<bar>x * 10 ^ 1 - of_int n\<bar> = \<bar>x - ?q\<bar> * 10" by (simp add: abs_if)
  also have "\<dots> \<le> ?q / 2 ^ 53 * 10" using err by simp
  also have "\<dots> = of_int n / 2 ^ 53" by simp
  also have "\<dots> \<le> 1000 / 2 ^ 53" using assms by (simp add: divide_right_mono)
  also have "\<dots> < (1 / 2 :: rat)" by simp
  finally have "round_half_even (x * 10 ^ 1) = n" by (rule rhe_near)
  then show ?thesis
    by (simp add: bsl_column_def x to_decimal_def)
qed

section \<open>Facts about the persistence layer\<close>

lemma select_by_id_None_iff: "select_by_id db i = None \<longleftrightarrow> Some i \<notin> id_m ` set db"
  by (auto simp: select_by_id_def find_None_iff image_iff)

lemma select_by_id_Some_id: "select_by_id db i = Some r \<Longrightarrow> id_m r = Some i \<and> r \<in> set db"
  unfolding select_by_id_def by (induction db) (auto split: if_splits)

lemma fold_max_ge: "(a::int) \<le> fold max xs a"
  by (induction xs arbitrary: a) (auto intro: order_trans [OF max.cobounded2])

lemma fold_max_mem: "(x::int) \<in> set xs \<Longrightarrow> x \<le> fold max xs a"
proof (induction xs arbitrary: a)
  case Nil
  then show ?case by simp
next
  case (Cons y ys)
  show ?case
  proof (cases "x = y")
    case True
    have "x \<le> max y a" using True by simp
    also have "\<dots> \<le> fold max ys (max y a)" by (rule fold_max_ge)
    finally show ?thesis by simp
  next
    case False
    with Cons.prems have "x \<in> set ys" by simp
    then show ?thesis using Cons.IH by simp
  qed
qed

lemma next_id_greater: "Some i \<in> id_m ` set db \<Longrightarrow> i < next_id db"
proof -
  assume "Some i \<in> id_m ` set db"
  then have "i \<in> set (List.map_filter id_m db)"
    by (induction db) (auto simp: map_filter_simps split: option.splits)
  then have "i \<le> fold max (List.map_filter id_m db) 0" by (rule fold_max_mem)
  then show ?thesis by (simp add: next_id_def)
qed

lemma next_id_fresh: "Some (next_id db) \<notin> id_m ` set db"
  using next_id_greater [of "next_id db" db] by auto

lemma select_by_id_append_fresh:
  "Some i \<notin> id_m ` set db \<Longrightarrow> id_m x = Some i \<Longrightarrow> select_by_id (db @ [x]) i = Some x"
  unfolding select_by_id_def by (induction db) auto

lemma create_result:
  "id_s m = None \<Longrightarrow>
   create db m =
     Inr (\<lparr>id_m = Some (next_id db), bsl_m = bsl_column (bsl_s m), type_m = type_s m,
            date_m = date_s m, time_m = time_s m\<rparr>,
          db @ [\<lparr>id_m = Some (next_id db), bsl_m = bsl_column (bsl_s m), type_m = type_s m,
            date_m = date_s m, time_m = time_s m\<rparr>])"
  by (simp add: create_def Let_def select_by_id_append_fresh next_id_fresh)

lemma create_read_back:
  "id_s m = None \<Longrightarrow>
   \<exists>r db' i. create db m = Inr (r, db') \<and> db' = db @ [r] \<and>
     id_m r = Some i \<and> Some i \<notin> id_m ` set db \<and>
     select_by_id db' i = Some r \<and> read db' i = Inr r \<and>
     bsl_m r = bsl_column (bsl_s m) \<and> type_m r = type_s m \<and> date_m r = date_s m \<and>
     time_m r = time_s m"
  by (simp add: create_result read_def select_by_id_append_fresh next_id_fresh)

lemma select_by_id_overwrite:
  "select_by_id db i = Some r \<Longrightarrow> id_m new = Some i \<Longrightarrow>
   select_by_id (overwrite i new db) i = Some new"
  unfolding select_by_id_def by (induction db) (auto split: if_splits)

lemma overwrite_idem:
  "id_m new = Some i \<Longrightarrow> overwrite i new (overwrite i new db) = overwrite i new db"
  by (induction db) auto

lemma set_overwrite: "set (overwrite i new db) \<subseteq> insert new (set db)"
  by (induction db) auto

lemma update_result:
  "id_s m = Some i \<Longrightarrow> select_by_id db i = Some r \<Longrightarrow>
   update db m =
     Inr (\<lparr>id_m = Some i, bsl_m = bsl_column (bsl_s m), type_m = type_s m,
            date_m = date_s m, time_m = time_s m\<rparr>,
          overwrite i \<lparr>id_m = Some i, bsl_m = bsl_column (bsl_s m), type_m = type_s m,
            date_m = date_s m, time_m = time_s m\<rparr> db)"
  by (cases r) (simp add: update_def Let_def)

lemma create_read_back_one_decimal:
  assumes "id_s m = None" and "bsl_s m = of_int n / 10" and "0 \<le> n" and "n \<le> 1000"
  shows "\<exists>r db' i. create db m = Inr (r, db') \<and> id_m r = Some i \<and> read db' i = Inr r \<and>
     bsl_m r = Finite (bsl_s m) \<and> type_m r = type_s m \<and> date_m r = date_s m \<and>
     time_m r = time_s m"
  using create_read_back [OF assms(1), of db] bsl_column_one_decimal [OF assms(3,4)] assms(2)
  by auto

section \<open>Facts about the routes\<close>

lemma post_bsl_rejects:
  "validate c = Inl e \<Longrightarrow> post_bsl c db = (RequestValidationError e, db)"
  by (simp add: post_bsl_def)

lemma create_measurement_result:
  "id_s m = None \<Longrightarrow>
   create_measurement m db =
     (Returned \<lparr>id_m = Some (next_id db), bsl_m = bsl_column (bsl_s m), type_m = type_s m,
            date_m = date_s m, time_m = time_s m\<rparr>,
      db @ [\<lparr>id_m = Some (next_id db), bsl_m = bsl_column (bsl_s m), type_m = type_s m,
            date_m = date_s m, time_m = time_s m\<rparr>])"
  by (simp add: create_measurement_def create_result)

lemma create_measurement_with_id:
  "id_s m = Some j \<Longrightarrow>
   create_measurement m db =
     (Unhandled (DatabaseError None ''ID should be null for new measurements''), db)"
  by (simp add: create_measurement_def create_def)

lemma post_bsl_returned:
  assumes p: "post_bsl c db = (Returned r, db')"
  shows "c_date c = Some (date_m r) \<and> c_time c = Some (time_m r) \<and> db' = db @ [r]"
proof (cases "validate c")
  case (Inl e)
  with p show ?thesis by (simp add: post_bsl_def)
next
  case (Inr m)
  note v = validate_Inr [OF Inr]
  from p Inr have cm: "create_measurement m db = (Returned r, db')"
    by (simp add: post_bsl_def)
  show ?thesis
  proof (cases "id_s m")
    case None
    from cm have "r = \<lparr>id_m = Some (next_id db), bsl_m = bsl_column (bsl_s m), type_m = type_s m,
            date_m = date_s m, time_m = time_s m\<rparr> \<and> db' = db @ [r]"
      unfolding create_measurement_result [OF None] by auto
    with v show ?thesis by simp
  next
    case (Some j)
    from cm show ?thesis unfolding create_measurement_with_id [OF Some] by simp
  qed
qed

lemma post_bsl_missing:
  "c_date c = None \<or> c_time c = None \<Longrightarrow>
   \<exists>errs. post_bsl c db = (RequestValidationError (ValidationError errs), db) \<and>
     (c_date c = None \<longrightarrow> (''date'', ''missing'') \<in> set errs) \<and>
     (c_time c = None \<longrightarrow> (''time'', ''missing'') \<in> set errs)"
  by (auto simp: post_bsl_def validate_def field_required_def field_errors_def
      split: sum.splits option.splits)

section \<open>The claims\<close>

text \<open>
  Claim C1 (validation of the value). The claim has every value outside the range
  from 0 to 100, or with more than one decimal digit, refused by validation. The
  constraints of line 39 are not applied to the field: the bodies with \<open>bsl\<close> 100.1,
  -0.1 and 5.55, every other field valid, pass validation.
\<close>

theorem out_of_range_values_accepted:
  "validate (body_0\<lparr>c_bsl := Some (Finite (1001 / 10))\<rparr>)
     = Inr (measurement_0\<lparr>bsl_s := 1001 / 10\<rparr>) \<and>
   validate (body_0\<lparr>c_bsl := Some (Finite (- (1 / 10)))\<rparr>)
     = Inr (measurement_0\<lparr>bsl_s := - (1 / 10)\<rparr>) \<and>
   validate (body_0\<lparr>c_bsl := Some (Finite (111 / 20))\<rparr>)
     = Inr (measurement_0\<lparr>bsl_s := 111 / 20\<rparr>)"
  by (simp add: validate_def field_bsl_def field_type_def MeasurementTypes_of_def
      field_required_def)

text \<open>
  Claim C2 (date and time of a creation request), as amended: a creation request
  that omits \<open>date\<close> or \<open>time\<close> is refused by validation, with the error
  \<open>missing\<close> on each omitted field, and the store is unchanged; a creation request
  that succeeds stores the date and the time of the request itself.
\<close>

theorem post_requires_date_and_time:
  "(c_date c = None \<or> c_time c = None \<longrightarrow>
      (\<exists>errs. post_bsl c db = (RequestValidationError (ValidationError errs), db) \<and>
         (c_date c = None \<longrightarrow> (''date'', ''missing'') \<in> set errs) \<and>
         (c_time c = None \<longrightarrow> (''time'', ''missing'') \<in> set errs))) \<and>
   (\<forall>r db'. post_bsl c db = (Returned r, db') \<longrightarrow>
      c_date c = Some (date_m r) \<and> c_time c = Some (time_m r) \<and> db' = db @ [r])"
proof (rule conjI)
  show "c_date c = None \<or> c_time c = None \<longrightarrow>
      (\<exists>errs. post_bsl c db = (RequestValidationError (ValidationError errs), db) \<and>
         (c_date c = None \<longrightarrow> (''date'', ''missing'') \<in> set errs) \<and>
         (c_time c = None \<longrightarrow> (''time'', ''missing'') \<in> set errs))"
    by (rule impI) (rule post_bsl_missing)
next
  show "\<forall>r db'. post_bsl c db = (Returned r, db') \<longrightarrow>
      c_date c = Some (date_m r) \<and> c_time c = Some (time_m r) \<and> db' = db @ [r]"
    by (intro allI impI) (rule post_bsl_returned)
qed

text \<open>
  The theorem at two bodies with value 5.5: one without date and time, refused, and
  one with both, stored with the date and time it carries.
\<close>

theorem post_requires_date_and_time_witness:
  "(\<exists>errs. post_bsl (body_0\<lparr>c_bsl := Some (Finite (11 / 2)), c_date := None, c_time := None\<rparr>) []
        = (RequestValidationError (ValidationError errs), []) \<and>
      (''date'', ''missing'') \<in> set errs \<and> (''time'', ''missing'') \<in> set errs) \<and>
   post_bsl (body_0\<lparr>c_bsl := Some (Finite (11 / 2))\<rparr>) []
     = (Returned (row_1\<lparr>bsl_m := Finite (11 / 2)\<rparr>), [row_1\<lparr>bsl_m := Finite (11 / 2)\<rparr>]) \<and>
   c_date (body_0\<lparr>c_bsl := Some (Finite (11 / 2))\<rparr>)
     = Some (date_m (row_1\<lparr>bsl_m := Finite (11 / 2)\<rparr>)) \<and>
   c_time (body_0\<lparr>c_bsl := Some (Finite (11 / 2))\<rparr>)
     = Some (time_m (row_1\<lparr>bsl_m := Finite (11 / 2)\<rparr>))"
proof -
  have e: "post_bsl (body_0\<lparr>c_bsl := Some (Finite (11 / 2))\<rparr>) []
     = (Returned (row_1\<lparr>bsl_m := Finite (11 / 2)\<rparr>), [row_1\<lparr>bsl_m := Finite (11 / 2)\<rparr>])"
    by code_simp
  show ?thesis
    using post_requires_date_and_time
        [of "body_0\<lparr>c_bsl := Some (Finite (11 / 2)), c_date := None, c_time := None\<rparr>" "[]"]
      post_requires_date_and_time [of "body_0\<lparr>c_bsl := Some (Finite (11 / 2))\<rparr>" "[]"] e
    by simp
qed

text \<open>
  The claim as stated fails: the body with value 5.5 and type "fasting" and neither
  date nor time is refused, and nothing is stored.
\<close>

theorem post_without_date_time_rejected:
  "post_bsl \<lparr>c_id = None, c_bsl = Some (Finite (11 / 2)), c_type = Some ''fasting'',
      c_date = None, c_time = None\<rparr> []
   = (RequestValidationError (ValidationError [(''date'', ''missing''), (''time'', ''missing'')]), [])"
  by code_simp

text \<open>
  Claim C3 (the table of the migration and the columns of the ORM model). The claim
  has the migration create exactly the columns of the model. \<open>upgrade\<close> creates
  \<open>id\<close>, \<open>bsl\<close>, \<open>date\<close> and \<open>time\<close>; the column \<open>type\<close> of the model is
  not among them.
\<close>

theorem migration_lacks_type_column:
  "map col_name upgrade = [''id'', ''bsl'', ''date'', ''time''] \<and>
   map col_name BslMeasurementModel_columns = [''id'', ''bsl'', ''type'', ''date'', ''time''] \<and>
   ''type'' \<notin> set (map col_name upgrade)"
  by (simp add: upgrade_def BslMeasurementModel_columns_def)

text \<open>
  Claim C4 (create with an id), as amended: for every measurement whose id is not
  null, \<open>create\<close> fails with the \<open>DatabaseError\<close> "ID should be null for new
  measurements" before the store is touched, the store is unchanged, and the route
  \<open>create_measurement\<close> lets the error propagate unhandled.
\<close>

theorem create_with_id_fails:
  "id_s m \<noteq> None \<Longrightarrow>
   create db m = Inl (DatabaseError None ''ID should be null for new measurements'') \<and>
   create_measurement m db
     = (Unhandled (DatabaseError None ''ID should be null for new measurements''), db)"
  by (simp add: create_measurement_def create_def)

theorem create_with_id_fails_witness:
  "id_s (measurement_0\<lparr>id_s := Some 7\<rparr>) \<noteq> None \<and>
   create [row_1] (measurement_0\<lparr>id_s := Some 7\<rparr>)
     = Inl (DatabaseError None ''ID should be null for new measurements'') \<and>
   create_measurement (measurement_0\<lparr>id_s := Some 7\<rparr>) [row_1]
     = (Unhandled (DatabaseError None ''ID should be null for new measurements''), [row_1])"
  using create_with_id_fails [of "measurement_0\<lparr>id_s := Some 7\<rparr>" "[row_1]"]
  by simp

text \<open>
  The claim as stated fails: the outcome of the route for a measurement with id 7 is
  an unhandled \<open>DatabaseError\<close>, not a rejection with a status code 4xx.
\<close>

theorem create_with_id_not_client_rejection:
  "create_measurement \<lparr>id_s = Some 7, bsl_s = 0, type_s = FASTING,
      date_s = Date 2024 9 3, time_s = Time 18 4 58\<rparr> []
     = (Unhandled (DatabaseError None ''ID should be null for new measurements''), []) \<and>
   \<not> client_rejection (fst (create_measurement \<lparr>id_s = Some 7, bsl_s = 0,
      type_s = FASTING, date_s = Date 2024 9 3, time_s = Time 18 4 58\<rparr> []))"
  by (simp add: create_measurement_def create_def)

text \<open>
  Claim C5 (failures of update). An update with a null id fails with the
  \<open>DatabaseError\<close> "ID should not be null for existing measurements" (the spec's
  InvalidRequest), an update with an id that no row has fails with the
  \<open>DatabaseError\<close> "Measurement not found" (the spec's NotFound), which the route
  turns into status 404; in both cases the store is unchanged.
\<close>

theorem update_failures:
  "(id_s m = None \<longrightarrow>
      update db m = Inl (DatabaseError None ''ID should not be null for existing measurements'') \<and>
      snd (update_measurement m db) = db) \<and>
   (\<forall>i. id_s m = Some i \<and> Some i \<notin> id_m ` set db \<longrightarrow>
      update db m = Inl (DatabaseError None ''Measurement not found'') \<and>
      update_measurement m db = (HTTPException 404 ''No measurement with that ID'', db))"
proof -
  have "\<And>i. Some i \<notin> id_m ` set db \<Longrightarrow> select_by_id db i = None"
    by (simp add: select_by_id_None_iff)
  then show ?thesis
    by (simp add: update_def update_measurement_def)
qed

theorem update_failures_witness:
  "update [row_1] measurement_0
     = Inl (DatabaseError None ''ID should not be null for existing measurements'') \<and>
   snd (update_measurement measurement_0 [row_1]) = [row_1] \<and>
   Some 999999 \<notin> id_m ` set [row_1] \<and>
   update [row_1] (measurement_0\<lparr>id_s := Some 999999\<rparr>)
     = Inl (DatabaseError None ''Measurement not found'') \<and>
   update_measurement (measurement_0\<lparr>id_s := Some 999999\<rparr>) [row_1]
     = (HTTPException 404 ''No measurement with that ID'', [row_1])"
  using update_failures [of measurement_0 "[row_1]"]
    update_failures [of "measurement_0\<lparr>id_s := Some 999999\<rparr>" "[row_1]"]
  by simp

text \<open>
  Claim C6 (delete is idempotent). For every id and store, \<open>delete_measurement\<close>
  returns \<open>None\<close> without an error, on the first call and on the second, and the
  second call leaves the store as the first left it; deleting an id that no row has
  leaves the store unchanged; after the delete, \<open>read\<close> of the id fails with the
  \<open>DatabaseError\<close> tagged \<open>MeasurementNotFound\<close>, and \<open>get_measurement\<close>
  answers 404.
\<close>

theorem delete_idempotent:
  "delete_measurement i db = (Returned (), delete db i) \<and>
   delete_measurement i (delete db i) = (Returned (), delete db i) \<and>
   (Some i \<notin> id_m ` set db \<longrightarrow> delete db i = db) \<and>
   read (delete db i) i
     = Inl (DatabaseError (Some ''MeasurementNotFound'')
             (''No measurement with the given id: '' @ str_int i)) \<and>
   get_measurement i (delete db i)
     = (HTTPException 404 ''No measurement with that ID'', delete db i)"
proof -
  have a: "delete (delete db i) i = delete db i"
    by (simp add: delete_def)
  have b: "Some i \<notin> id_m ` set db \<longrightarrow> delete db i = db"
    by (auto simp: delete_def filter_id_conv image_iff)
  have c: "select_by_id (delete db i) i = None"
    by (auto simp: select_by_id_None_iff delete_def)
  show ?thesis using a b c
    by (simp add: delete_measurement_def read_def get_measurement_def)
qed

theorem delete_idempotent_witness:
  "Some 999999 \<notin> id_m ` set [row_1] \<and> delete [row_1] 999999 = [row_1] \<and>
   delete_measurement 999999 [row_1] = (Returned (), [row_1]) \<and>
   delete [row_1] 1 = [] \<and>
   get_measurement 1 (delete [row_1] 1) = (HTTPException 404 ''No measurement with that ID'', [])"
proof -
  have d: "delete [row_1] 1 = []"
    by (simp add: delete_def)
  show ?thesis
    using delete_idempotent [of 999999 "[row_1]"] delete_idempotent [of 1 "[row_1]"] d
    by simp
qed

text \<open>
  Claim C7 (create, then read). The claim has the row read after a create equal to
  the created measurement in every field. The measurement with value 5.55, which
  validation lets through, is created as a row with value 5.5 (column \<open>bsl\<close> keeps
  one fractional digit), and \<open>read\<close> of its id yields that row: the value read is
  not the value created.
\<close>

theorem create_5_55_reads_5_5:
  "create [] (measurement_0\<lparr>bsl_s := 111 / 20\<rparr>)
     = Inr (row_1\<lparr>bsl_m := Finite (11 / 2)\<rparr>, [row_1\<lparr>bsl_m := Finite (11 / 2)\<rparr>]) \<and>
   read [row_1\<lparr>bsl_m := Finite (11 / 2)\<rparr>] 1 = Inr (row_1\<lparr>bsl_m := Finite (11 / 2)\<rparr>) \<and>
   bsl_m (row_1\<lparr>bsl_m := Finite (11 / 2)\<rparr>)
     \<noteq> Finite (bsl_s (measurement_0\<lparr>bsl_s := 111 / 20\<rparr>))"
  by code_simp

text \<open>
  Claim C8 (update is idempotent). For every measurement with an id that a row of the
  store has, \<open>update\<close> succeeds, and the same update applied to the resulting store
  succeeds with the same row and leaves that store as it is.
\<close>

theorem update_idempotent:
  "id_s m = Some i \<Longrightarrow> Some i \<in> id_m ` set db \<Longrightarrow>
   \<exists>r db'. update db m = Inr (r, db') \<and> update db' m = Inr (r, db')"
proof -
  assume i: "id_s m = Some i" and "Some i \<in> id_m ` set db"
  then obtain r0 where r0: "select_by_id db i = Some r0"
    using select_by_id_None_iff [of db i] by (cases "select_by_id db i") auto
  let ?r = "\<lparr>id_m = Some i, bsl_m = bsl_column (bsl_s m), type_m = type_s m,
            date_m = date_s m, time_m = time_s m\<rparr>"
  have u1: "update db m = Inr (?r, overwrite i ?r db)"
    by (rule update_result [OF i r0])
  have "select_by_id (overwrite i ?r db) i = Some ?r"
    by (rule select_by_id_overwrite [OF r0]) simp
  from update_result [OF i this]
  have u2: "update (overwrite i ?r db) m = Inr (?r, overwrite i ?r db)"
    by (simp add: overwrite_idem)
  from u1 u2 show ?thesis by blast
qed

theorem update_idempotent_witness:
  "id_s (measurement_0\<lparr>id_s := Some 1, type_s := RANDOM\<rparr>) = Some 1 \<and>
   Some 1 \<in> id_m ` set [row_1] \<and>
   (\<exists>r db'. update [row_1] (measurement_0\<lparr>id_s := Some 1, type_s := RANDOM\<rparr>) = Inr (r, db') \<and>
      update db' (measurement_0\<lparr>id_s := Some 1, type_s := RANDOM\<rparr>) = Inr (r, db'))"
  using update_idempotent [of "measurement_0\<lparr>id_s := Some 1, type_s := RANDOM\<rparr>" 1 "[row_1]"]
  by simp

text \<open>
  Claim C9 (invariant of the store). The claim has every stored measurement hold a
  value that is finite, from 0 to 100, with at most one decimal digit. A create
  request with value 100.1 on the empty store passes validation and leaves a row with
  id 1 and type FASTING whose value 100.1 is outside the range.
\<close>

theorem stored_value_out_of_range:
  "fold handle [POST (body_0\<lparr>c_bsl := Some (Finite (1001 / 10))\<rparr>)] []
     = [row_1\<lparr>bsl_m := Finite (1001 / 10)\<rparr>] \<and>
   \<not> value_ok (bsl_m (row_1\<lparr>bsl_m := Finite (1001 / 10)\<rparr>))"
  by code_simp

text \<open>
  Claim C10 (the type is parsed by value, case-sensitively). A type string is accepted
  as FASTING exactly when it is "fasting" and as RANDOM exactly when it is "random";
  every other string is refused with the error \<open>enum\<close> on field \<open>type\<close>, whatever
  the other fields of the body are.
\<close>

theorem type_parsing_case_sensitive:
  "(field_type (Some s) = Inr FASTING \<longleftrightarrow> s = ''fasting'') \<and>
   (field_type (Some s) = Inr RANDOM \<longleftrightarrow> s = ''random'') \<and>
   (s \<noteq> ''fasting'' \<and> s \<noteq> ''random'' \<longrightarrow>
      field_type (Some s) = Inl ''enum'' \<and>
      (\<forall>c. c_type c = Some s \<longrightarrow>
         (\<exists>errs. validate c = Inl (ValidationError errs) \<and> (''type'', ''enum'') \<in> set errs)))"
  by (auto simp: field_type_def MeasurementTypes_of_def validate_def field_errors_def
      split: sum.splits)

theorem type_parsing_case_sensitive_witness:
  "''FASTING'' \<noteq> ''fasting'' \<and> ''FASTING'' \<noteq> ''random'' \<and>
   field_type (Some ''FASTING'') = Inl ''enum'' \<and>
   (\<exists>errs. validate (body_0\<lparr>c_type := Some ''FASTING''\<rparr>) = Inl (ValidationError errs) \<and>
      (''type'', ''enum'') \<in> set errs)"
proof -
  have ne: "''FASTING'' \<noteq> ''fasting'' \<and> ''FASTING'' \<noteq> ''random''"
    by simp
  from type_parsing_case_sensitive [of "''FASTING''"] ne
  have a: "field_type (Some ''FASTING'') = Inl ''enum''"
    and b: "\<forall>c. c_type c = Some ''FASTING'' \<longrightarrow>
         (\<exists>errs. validate c = Inl (ValidationError errs) \<and> (''type'', ''enum'') \<in> set errs)"
    by simp_all
  from b [rule_format, of "body_0\<lparr>c_type := Some ''FASTING''\<rparr>"]
  have "\<exists>errs. validate (body_0\<lparr>c_type := Some ''FASTING''\<rparr>) = Inl (ValidationError errs) \<and>
      (''type'', ''enum'') \<in> set errs"
    by simp
  with ne a show ?thesis by simp
qed

end
